theory Spec2Isabelle
  imports Complex_Main
begin

section \<open>The two-coordinate MCMC sampler of \<open>1d_tests/mcmc_het.py\<close>\<close>

text \<open>
  NumPy's float64 scalars are modelled as real numbers, so the development speaks about
  the arithmetic the program writes down, not about rounding.  A configuration
  (a NumPy array of shape \<open>(2,)\<close>) is a pair of reals, the dataset \<open>images\<close> a list
  of reals.
\<close>

type_synonym config = "real \<times> real"

subsection \<open>Energy model and prior\<close>

text \<open>
  \<open>scipy.special.logsumexp(a, axis=0)\<close> on a column of the \<open>(2, N)\<close> array: the
  logarithm of the sum of the exponentials of the column's entries.
\<close>

definition logsumexp :: "real list \<Rightarrow> real" where
  "logsumexp as = ln (sum_list (map exp as))"

text \<open>
  \<^verbatim>\<open>energy = -kT * np.sum(logsumexp(0.5 * np.exp(-(X[:, None] - images)**2 / (2 * sigma**2)), axis=0))\<close>

  \<open>X[:, None] - images\<close> is the \<open>(2, N)\<close> array of differences; \<open>**\<close> binds tighter
  than the unary minus; \<open>logsumexp\<close> reduces the axis of length two, \<open>np.sum\<close> the
  observations.
\<close>

definition energy_em :: "config \<Rightarrow> real list \<Rightarrow> real \<Rightarrow> real \<Rightarrow> real" where
  "energy_em X images sigma kT =
     - kT * sum_list (map (\<lambda>v. logsumexp
         [0.5 * exp (- ((fst X - v)\<^sup>2) / (2 * sigma\<^sup>2)),
          0.5 * exp (- ((snd X - v)\<^sup>2) / (2 * sigma\<^sup>2))]) images)"

text \<open>
  The energy the docstring of \<open>energy_em\<close> describes, written from its words: \<open>kT\<close> times
  the negative logarithm of the product over the observations of the mixture likelihood
  \<open>0.5 * exp(-(x1 - w)^2 / (2 sigma^2)) + 0.5 * exp(-(x2 - w)^2 / (2 sigma^2))\<close>.
\<close>

definition mixture_neg_log_likelihood :: "config \<Rightarrow> real list \<Rightarrow> real \<Rightarrow> real \<Rightarrow> real" where
  "mixture_neg_log_likelihood X images sigma kT =
     - kT * sum_list (map (\<lambda>v. ln
         (0.5 * exp (- ((fst X - v)\<^sup>2) / (2 * sigma\<^sup>2)) +
          0.5 * exp (- ((snd X - v)\<^sup>2) / (2 * sigma\<^sup>2)))) images)"

text \<open>\<^verbatim>\<open>prior = lambda x, sigma, kT: kT * 0.5 * (x / sigma)**2\<close>\<close>

definition prior :: "real \<Rightarrow> real \<Rightarrow> real \<Rightarrow> real" where
  "prior x sigma kT = kT * 0.5 * (x / sigma)\<^sup>2"

subsection \<open>Errors, random draws and thresholds\<close>

text \<open>
  The exceptions the sampler can raise: \<open>np.zeros\<close> refuses a negative dimension
  (ValueError), an index outside \<open>samples\<close> raises IndexError, and the call of a global
  name that the module does not bind raises NameError.
\<close>

datatype error = ValueError | IndexError | NameError

text \<open>
  One iteration's random numbers: \<open>dx = np.random.normal(0, 0.1, 2)\<close> and the two
  uniforms of \<open>np.random.rand(2)\<close>, which lie in \<open>[0, 1)\<close>.
\<close>

record draw =
  dx :: "real \<times> real"
  rand :: "real \<times> real"

text \<open>
  \<open>p_a = -np.log(np.random.rand(2))\<close>.  NumPy's logarithm of \<open>0.0\<close> is \<open>-inf\<close> (with a
  warning, not an exception), so the threshold of a zero draw is \<open>+inf\<close>; HOL's \<open>ln 0\<close>
  is \<open>0\<close>, hence the case is written out.
\<close>

datatype threshold = Fin real | PInf

definition neg_log :: "real \<Rightarrow> threshold" where
  "neg_log u = (if u = 0 then PInf else Fin (- ln u))"

text \<open>\<open>a < p\<close> and \<open>a > p\<close> for a finite score \<open>a\<close> and a threshold \<open>p\<close>.\<close>

fun lt :: "real \<Rightarrow> threshold \<Rightarrow> bool" where
  "lt a (Fin p) = (a < p)"
| "lt a PInf = True"

fun gt :: "real \<Rightarrow> threshold \<Rightarrow> bool" where
  "gt a (Fin p) = (a > p)"
| "gt a PInf = False"

fun positive :: "threshold \<Rightarrow> bool" where
  "positive (Fin p) = (0 < p)"
| "positive PInf = True"

subsection \<open>The sampler \<open>do_mcmc\<close>\<close>

text \<open>
  \<open>do_mcmc\<close> computes every energy through the global name \<open>p_em\<close>.  The energy function
  has the signature of \<open>energy_em\<close>.
\<close>

type_synonym energy_fn = "config \<Rightarrow> real list \<Rightarrow> real \<Rightarrow> real \<Rightarrow> real"

text \<open>
  What the module's namespace holds under the name \<open>p_em\<close> when \<open>do_mcmc\<close> runs:
  \<open>None\<close> when the name is unbound.  The file defines \<open>gen_images\<close>, \<open>energy_em\<close>,
  \<open>prior\<close>, \<open>do_mcmc\<close> and the plotting helpers, imports no \<open>p_em\<close>, and never assigns
  the name, so as the file stands the binding is \<open>None\<close>.
\<close>

definition module_p_em :: "energy_fn option" where
  "module_p_em = None"

text \<open>The local variables of \<open>do_mcmc\<close> that live across iterations.\<close>

record mcmc_state =
  st_x :: config
  st_samples :: "config list"
  st_old_e :: real
  st_c :: nat

text \<open>
  The four statements every accepting branch repeats:
  \<^verbatim>\<open>x = np.array([...]); samples[c] = x; old_e = p_em(x, images, sigma, kT); c += 1\<close>
  The store into \<open>samples\<close> raises IndexError outside the array.
\<close>

definition accept ::
  "energy_fn \<Rightarrow> real list \<Rightarrow> real \<Rightarrow> real \<Rightarrow> config \<Rightarrow> mcmc_state \<Rightarrow> error + mcmc_state"
where
  "accept f images sigma kT xn s =
     (if st_c s < length (st_samples s)
      then Inr \<lparr>st_x = xn, st_samples = (st_samples s)[st_c s := xn],
                st_old_e = f xn images sigma kT, st_c = st_c s + 1\<rparr>
      else Inl IndexError)"

text \<open>The body of the \<open>for\<close> loop (lines 75 to 154), branch by branch.\<close>

definition mcmc_step ::
  "energy_fn \<Rightarrow> real list \<Rightarrow> real \<Rightarrow> real \<Rightarrow> draw \<Rightarrow> mcmc_state \<Rightarrow> error + mcmc_state"
where
  "mcmc_step f images sigma kT d s =
     (let x = st_x s;
          old_e = st_old_e s;
          x1 = fst x + fst (dx d);
          x2 = snd x + snd (dx d);
          a1 = f (x1, snd x) images sigma kT - old_e - prior x1 3 kT + prior (fst x) 3 kT;
          a2 = f (fst x, x2) images sigma kT - old_e - prior x2 3 kT + prior (snd x) 3 kT;
          p_a = (neg_log (fst (rand d)), neg_log (snd (rand d)))
      in
        if a1 < 0 \<and> a2 < 0 then accept f images sigma kT (x1, x2) s
        else if a1 < 0 \<and> a2 > 0 then
          (if lt a2 (snd p_a) then accept f images sigma kT (x1, x2) s
           else accept f images sigma kT (x1, snd x) s)
        else if a1 > 0 \<and> a2 < 0 then
          (if lt a1 (fst p_a) then accept f images sigma kT (x1, x2) s
           else accept f images sigma kT (fst x, x2) s)
        else if a1 > 0 \<and> a2 > 0 then
          (if lt a1 (fst p_a) \<and> lt a2 (snd p_a) then accept f images sigma kT (x1, x2) s
           else if lt a1 (fst p_a) \<and> gt a2 (snd p_a) then accept f images sigma kT (x1, snd x) s
           else if gt a1 (fst p_a) \<and> lt a2 (snd p_a) then accept f images sigma kT (fst x, x2) s
           else Inr s)
        else Inr s)"

text \<open>
  \<open>for _ in range(1, steps)\<close>: the loop over the iteration indices; iteration \<open>i\<close> uses
  the draws \<open>rng i\<close>.  An exception leaves the loop.
\<close>

fun mcmc_loop ::
  "energy_fn \<Rightarrow> real list \<Rightarrow> real \<Rightarrow> real \<Rightarrow> (nat \<Rightarrow> draw) \<Rightarrow> nat list \<Rightarrow> mcmc_state
     \<Rightarrow> error + mcmc_state"
where
  "mcmc_loop f images sigma kT rng [] s = Inr s"
| "mcmc_loop f images sigma kT rng (i # is) s =
     (case mcmc_step f images sigma kT (rng i) s of
        Inl e \<Rightarrow> Inl e
      | Inr s' \<Rightarrow> mcmc_loop f images sigma kT rng is s')"

text \<open>
  The state before the loop: \<open>x = x0\<close>, \<open>samples = np.zeros((steps, 2))\<close> with
  \<open>samples[0] = x\<close>, \<open>old_e = p_em(x, images, sigma, kT)\<close>, \<open>c = 1\<close>.
\<close>

definition init_state ::
  "energy_fn \<Rightarrow> nat \<Rightarrow> real list \<Rightarrow> config \<Rightarrow> real \<Rightarrow> real \<Rightarrow> mcmc_state"
where
  "init_state f n images x0 sigma kT =
     \<lparr>st_x = x0, st_samples = (replicate n (0, 0))[0 := x0],
      st_old_e = f x0 images sigma kT, st_c = 1\<rparr>"

text \<open>
  \<open>do_mcmc(steps, images, x0, sigma, kT)\<close>, with the binding of \<open>p_em\<close> and the random
  source as further arguments.  \<open>np.zeros\<close> raises ValueError for negative \<open>steps\<close>;
  \<open>samples[0] = x\<close> raises IndexError when \<open>steps = 0\<close>; the first call of \<open>p_em\<close>
  raises NameError when the name is unbound.  The result is \<open>samples[:c, :]\<close>.
\<close>

definition do_mcmc ::
  "energy_fn option \<Rightarrow> int \<Rightarrow> real list \<Rightarrow> config \<Rightarrow> real \<Rightarrow> real \<Rightarrow> (nat \<Rightarrow> draw)
     \<Rightarrow> error + config list"
where
  "do_mcmc p_em steps images x0 sigma kT rng =
     (if steps < 0 then Inl ValueError
      else if steps = 0 then Inl IndexError
      else case p_em of
        None \<Rightarrow> Inl NameError
      | Some f \<Rightarrow>
          (case mcmc_loop f images sigma kT rng [1..<nat steps]
                  (init_state f (nat steps) images x0 sigma kT) of
             Inl e \<Rightarrow> Inl e
           | Inr s \<Rightarrow> Inr (take (st_c s) (st_samples s))))"

subsection \<open>The acceptance decision on its own\<close>

text \<open>
  The two acceptance scores of an iteration, as lines 80 and 81 compute them from the
  current configuration, the cached energy and the displacement.
\<close>

definition score1 ::
  "energy_fn \<Rightarrow> real list \<Rightarrow> real \<Rightarrow> real \<Rightarrow> draw \<Rightarrow> mcmc_state \<Rightarrow> real"
where
  "score1 f images sigma kT d s =
     f (fst (st_x s) + fst (dx d), snd (st_x s)) images sigma kT - st_old_e s
       - prior (fst (st_x s) + fst (dx d)) 3 kT + prior (fst (st_x s)) 3 kT"

definition score2 ::
  "energy_fn \<Rightarrow> real list \<Rightarrow> real \<Rightarrow> real \<Rightarrow> draw \<Rightarrow> mcmc_state \<Rightarrow> real"
where
  "score2 f images sigma kT d s =
     f (fst (st_x s), snd (st_x s) + snd (dx d)) images sigma kT - st_old_e s
       - prior (snd (st_x s) + snd (dx d)) 3 kT + prior (snd (st_x s)) 3 kT"

text \<open>
  Which coordinates the \<open>if\<close>/\<open>elif\<close> chain of lines 89 to 154 accepts, as a pair
  (first accepted, second accepted): the branches that build \<open>[x1, x2]\<close> accept both,
  \<open>[x1, x[1]]\<close> only the first, \<open>[x[0], x2]\<close> only the second; \<open>continue\<close> and the
  fall-through of the chain accept none.
\<close>

definition four_way :: "real \<Rightarrow> real \<Rightarrow> threshold \<Rightarrow> threshold \<Rightarrow> bool \<times> bool" where
  "four_way a1 a2 p1 p2 =
     (if a1 < 0 \<and> a2 < 0 then (True, True)
      else if a1 < 0 \<and> a2 > 0 then
        (if lt a2 p2 then (True, True) else (True, False))
      else if a1 > 0 \<and> a2 < 0 then
        (if lt a1 p1 then (True, True) else (False, True))
      else if a1 > 0 \<and> a2 > 0 then
        (if lt a1 p1 \<and> lt a2 p2 then (True, True)
         else if lt a1 p1 \<and> gt a2 p2 then (True, False)
         else if gt a1 p1 \<and> lt a2 p2 then (False, True)
         else (False, False))
      else (False, False))"

text \<open>
  The rule of the design notes, from its words: accept coordinate \<open>i\<close> iff
  \<open>score_i < 0\<close> or \<open>score_i < threshold_i\<close>, each coordinate on its own, then merged
  into the pair.
\<close>

definition accept_coordinate :: "real \<Rightarrow> threshold \<Rightarrow> bool" where
  "accept_coordinate a p = (a < 0 \<or> lt a p)"

definition independent_rule :: "real \<Rightarrow> real \<Rightarrow> threshold \<Rightarrow> threshold \<Rightarrow> bool \<times> bool" where
  "independent_rule a1 a2 p1 p2 = (accept_coordinate a1 p1, accept_coordinate a2 p2)"

text \<open>
  The configurations the accepting iterations of a run produce, in iteration order:
  an iteration whose decision accepts a coordinate contributes the configuration built
  from the accepted proposals, and the chain continues from it with its energy; an
  iteration that accepts none contributes nothing.  No array and no counter here.
\<close>

fun accepted ::
  "energy_fn \<Rightarrow> real list \<Rightarrow> real \<Rightarrow> real \<Rightarrow> (nat \<Rightarrow> draw) \<Rightarrow> nat list \<Rightarrow> config \<Rightarrow> real
     \<Rightarrow> config list"
where
  "accepted f images sigma kT rng [] x e = []"
| "accepted f images sigma kT rng (i # is) x e =
     (let x1 = fst x + fst (dx (rng i));
          x2 = snd x + snd (dx (rng i));
          a1 = f (x1, snd x) images sigma kT - e - prior x1 3 kT + prior (fst x) 3 kT;
          a2 = f (fst x, x2) images sigma kT - e - prior x2 3 kT + prior (snd x) 3 kT;
          acc = four_way a1 a2 (neg_log (fst (rand (rng i)))) (neg_log (snd (rand (rng i))))
      in if fst acc \<or> snd acc
         then (let xn = (if fst acc then x1 else fst x, if snd acc then x2 else snd x)
               in xn # accepted f images sigma kT rng is xn (f xn images sigma kT))
         else accepted f images sigma kT rng is x e)"

text \<open>
  A random source that hands out the same numbers at every iteration; it is used to run
  the sampler on concrete inputs.
\<close>

definition constant_draws :: "draw \<Rightarrow> nat \<Rightarrow> draw" where
  "constant_draws d i = d"

section \<open>Properties of the energy model\<close>

text \<open>
  Claim C1.  The claim reads \<open>energy_em\<close> as \<open>kT\<close> times the negative log of the mixture
  likelihood, as the function's docstring does.  The code hands the mixture terms
  \<open>0.5 * exp(...)\<close> themselves to \<open>logsumexp\<close>, which exponentiates them once more: for the
  configuration \<open>(0, 0)\<close>, the single observation \<open>0\<close> and \<open>sigma = kT = 1\<close> the code
  returns \<open>-(ln 2 + 1/2)\<close>, where the mixture likelihood is \<open>1\<close> and its negative
  logarithm \<open>0\<close>.
\<close>

theorem energy_em_not_mixture_likelihood:
  "energy_em (0, 0) [0] 1 1 = - (ln 2 + 1 / 2)
   \<and> mixture_neg_log_likelihood (0, 0) [0] 1 1 = 0
   \<and> energy_em (0, 0) [0] 1 1 \<noteq> mixture_neg_log_likelihood (0, 0) [0] 1 1"
proof -
  have e: "energy_em (0, 0) [0] 1 1 = - (ln 2 + 1 / 2)"
  proof -
    have "exp (1 / 2 :: real) + exp (1 / 2) = 2 * exp (1 / 2)" by simp
    then have "ln (exp (1 / 2 :: real) + exp (1 / 2)) = ln 2 + 1 / 2"
      by (simp add: ln_mult)
    then show ?thesis by (simp add: energy_em_def logsumexp_def)
  qed
  have m: "mixture_neg_log_likelihood (0, 0) [0] 1 1 = 0"
    by (simp add: mixture_neg_log_likelihood_def)
  have "0 < ln (2 :: real)" by simp
  then have "- (ln 2 + 1 / 2) \<noteq> (0 :: real)" by linarith
  with e m show ?thesis by simp
qed

text \<open>
  Claim C9.  The energy is invariant under swapping the two coordinates of the
  configuration, for every dataset, \<open>sigma\<close> and \<open>kT\<close>.
\<close>

theorem energy_em_swap:
  "energy_em (x1, x2) images sigma kT = energy_em (x2, x1) images sigma kT"
  by (simp add: energy_em_def logsumexp_def add.commute)

section \<open>Properties of the sampler\<close>

subsection \<open>The loop body as a decision followed by the shared update\<close>

text \<open>
  Every branch of the loop body either runs the four shared statements on the
  configuration built from the accepted proposals, or does nothing; which one is
  decided by \<open>four_way\<close> on the two scores and the two thresholds.
\<close>

lemma mcmc_step_decision:
  "mcmc_step f images sigma kT d s =
     (let acc = four_way (score1 f images sigma kT d s) (score2 f images sigma kT d s)
                  (neg_log (fst (rand d))) (neg_log (snd (rand d)))
      in if fst acc \<or> snd acc
         then accept f images sigma kT
                (if fst acc then fst (st_x s) + fst (dx d) else fst (st_x s),
                 if snd acc then snd (st_x s) + snd (dx d) else snd (st_x s)) s
         else Inr s)"
  by (simp add: mcmc_step_def four_way_def score1_def score2_def Let_def)

lemma accepted_Cons:
  "accepted f images sigma kT rng (i # is) (st_x s) (st_old_e s) =
     (let acc = four_way (score1 f images sigma kT (rng i) s) (score2 f images sigma kT (rng i) s)
                  (neg_log (fst (rand (rng i)))) (neg_log (snd (rand (rng i))));
          xn = (if fst acc then fst (st_x s) + fst (dx (rng i)) else fst (st_x s),
                if snd acc then snd (st_x s) + snd (dx (rng i)) else snd (st_x s))
      in if fst acc \<or> snd acc
         then xn # accepted f images sigma kT rng is xn (f xn images sigma kT)
         else accepted f images sigma kT rng is (st_x s) (st_old_e s))"
  by (simp add: score1_def score2_def Let_def)

lemma take_Suc_update:
  "c < length xs \<Longrightarrow> take (Suc c) (xs[c := v]) = take c xs @ [v]"
  by (simp add: take_Suc_conv_app_nth)

text \<open>
  While the counter leaves room for the remaining iterations, the loop raises nothing,
  the filled prefix of \<open>samples\<close> grows by exactly the accepted configurations, and the
  array keeps its length.
\<close>

lemma mcmc_loop_result:
  "st_c s + length is \<le> length (st_samples s) \<Longrightarrow>
   \<exists>s'. mcmc_loop f images sigma kT rng is s = Inr s'
      \<and> take (st_c s') (st_samples s') =
          take (st_c s) (st_samples s) @ accepted f images sigma kT rng is (st_x s) (st_old_e s)
      \<and> length (st_samples s') = length (st_samples s)
      \<and> st_c s \<le> st_c s' \<and> st_c s' \<le> st_c s + length is"
proof (induction "is" arbitrary: s)
  case Nil
  then show ?case by simp
next
  case (Cons i "is")
  define acc where "acc = four_way (score1 f images sigma kT (rng i) s)
     (score2 f images sigma kT (rng i) s)
     (neg_log (fst (rand (rng i)))) (neg_log (snd (rand (rng i))))"
  define xn where "xn = (if fst acc then fst (st_x s) + fst (dx (rng i)) else fst (st_x s),
                if snd acc then snd (st_x s) + snd (dx (rng i)) else snd (st_x s))"
  show ?case
  proof (cases "fst acc \<or> snd acc")
    case False
    have step: "mcmc_step f images sigma kT (rng i) s = Inr s"
      using False by (simp add: mcmc_step_decision acc_def Let_def)
    have acc: "accepted f images sigma kT rng (i # is) (st_x s) (st_old_e s) =
        accepted f images sigma kT rng is (st_x s) (st_old_e s)"
      using False unfolding accepted_Cons by (simp add: acc_def Let_def)
    from Cons.prems have "st_c s + length is \<le> length (st_samples s)" by simp
    from Cons.IH [OF this] obtain s' where
      "mcmc_loop f images sigma kT rng is s = Inr s'"
      "take (st_c s') (st_samples s') =
          take (st_c s) (st_samples s) @ accepted f images sigma kT rng is (st_x s) (st_old_e s)"
      "length (st_samples s') = length (st_samples s)"
      "st_c s \<le> st_c s'" "st_c s' \<le> st_c s + length is"
      by blast
    then show ?thesis using step acc by simp
  next
    case True
    from Cons.prems have lt: "st_c s < length (st_samples s)" by simp
    define s1 where "s1 = \<lparr>st_x = xn, st_samples = (st_samples s)[st_c s := xn],
                st_old_e = f xn images sigma kT, st_c = st_c s + 1\<rparr>"
    have step: "mcmc_step f images sigma kT (rng i) s = Inr s1"
      using True lt by (simp add: mcmc_step_decision acc_def xn_def s1_def Let_def accept_def)
    have acc: "accepted f images sigma kT rng (i # is) (st_x s) (st_old_e s) =
        xn # accepted f images sigma kT rng is (st_x s1) (st_old_e s1)"
      using True unfolding accepted_Cons by (simp add: acc_def xn_def s1_def Let_def)
    from Cons.prems have "st_c s1 + length is \<le> length (st_samples s1)"
      by (simp add: s1_def)
    from Cons.IH [OF this] obtain s' where r:
      "mcmc_loop f images sigma kT rng is s1 = Inr s'"
      "take (st_c s') (st_samples s') =
          take (st_c s1) (st_samples s1) @ accepted f images sigma kT rng is (st_x s1) (st_old_e s1)"
      "length (st_samples s') = length (st_samples s1)"
      "st_c s1 \<le> st_c s'" "st_c s' \<le> st_c s1 + length is"
      by blast
    have t: "take (st_c s1) (st_samples s1) = take (st_c s) (st_samples s) @ [xn]"
      using lt by (simp add: s1_def take_Suc_update)
    have l: "length (st_samples s1) = length (st_samples s)" "st_c s1 = Suc (st_c s)"
      by (simp_all add: s1_def)
    show ?thesis using step acc r t l by simp
  qed
qed

lemma length_accepted: "length (accepted f images sigma kT rng is x e) \<le> length is"
  by (induction "is" arbitrary: x e) (auto simp add: Let_def le_SucI)

lemma mcmc_step_old_e:
  "mcmc_step f images sigma kT d s = Inr s' \<Longrightarrow>
   st_old_e s = f (st_x s) images sigma kT \<Longrightarrow>
   st_old_e s' = f (st_x s') images sigma kT"
  by (auto simp add: mcmc_step_decision Let_def accept_def split: if_splits)

lemma mcmc_loop_old_e:
  "mcmc_loop f images sigma kT rng is s = Inr s' \<Longrightarrow>
   st_old_e s = f (st_x s) images sigma kT \<Longrightarrow>
   st_old_e s' = f (st_x s') images sigma kT"
proof (induction "is" arbitrary: s)
  case Nil
  then show ?case by simp
next
  case (Cons i "is")
  then show ?case
    by (auto split: sum.splits dest: mcmc_step_old_e)
qed

text \<open>
  With \<open>p_em\<close> bound to an energy function and at least one requested step, the call
  returns, and its result is the initial configuration followed by the accepted ones.
\<close>

lemma do_mcmc_bound:
  assumes "0 < steps"
  shows "do_mcmc (Some f) steps images x0 sigma kT rng =
     Inr (x0 # accepted f images sigma kT rng [1..<nat steps] x0 (f x0 images sigma kT))"
proof -
  let ?s = "init_state f (nat steps) images x0 sigma kT"
  from assms have n: "0 < nat steps" by simp
  have "st_c ?s + length [1..<nat steps] \<le> length (st_samples ?s)"
    using n by (simp add: init_state_def)
  from mcmc_loop_result [OF this, of f images sigma kT rng] obtain s' where r:
    "mcmc_loop f images sigma kT rng [1..<nat steps] ?s = Inr s'"
    "take (st_c s') (st_samples s') =
       take (st_c ?s) (st_samples ?s)
         @ accepted f images sigma kT rng [1..<nat steps] (st_x ?s) (st_old_e ?s)"
    by blast
  have "take (st_c ?s) (st_samples ?s) = [x0]"
    using n by (cases "nat steps") (simp_all add: init_state_def)
  with r assms show ?thesis
    by (simp add: do_mcmc_def init_state_def)
qed

subsection \<open>The acceptance branch\<close>

text \<open>
  Claim C4.  The claim says that the four-way branch gives the same per-coordinate
  outcome as the rule "accept coordinate \<open>i\<close> iff \<open>score_i < 0\<close> or
  \<open>score_i < threshold_i\<close>".  At the scores \<open>(0, -1)\<close> and the thresholds \<open>(1, 1)\<close> no
  condition of the chain (lines 89, 97, 113, 129) is met, since each of them needs both
  scores nonzero and the chain has no final \<open>else\<close>: the code accepts nothing, while the
  rule accepts both coordinates (\<open>0 < 1\<close> and \<open>-1 < 0\<close>).
\<close>

theorem four_way_differs_from_rule:
  "four_way 0 (- 1) (Fin 1) (Fin 1) = (False, False)
   \<and> independent_rule 0 (- 1) (Fin 1) (Fin 1) = (True, True)"
  by (simp add: four_way_def independent_rule_def accept_coordinate_def)

text \<open>
  The sibling paths of the chain do what the rule says.  A coordinate with a negative
  score is accepted on every path on which the other score is nonzero, and is dropped
  only where the other score is exactly zero.
\<close>

lemma negative_score_accepted:
  "a1 < 0 \<Longrightarrow> a2 \<noteq> 0 \<Longrightarrow> fst (four_way a1 a2 p1 p2)"
  "a2 < 0 \<Longrightarrow> a1 \<noteq> 0 \<Longrightarrow> snd (four_way a1 a2 p1 p2)"
  by (auto simp add: four_way_def)

lemma negative_score_dropped_at_zero:
  "a1 < 0 \<Longrightarrow> \<not> fst (four_way a1 0 p1 p2)"
  "a2 < 0 \<Longrightarrow> \<not> snd (four_way 0 a2 p1 p2)"
  by (simp_all add: four_way_def)

text \<open>
  A second score equal to its threshold is treated in two ways.  After a negative first
  score (lines 99 to 111) the \<open>else\<close> keeps the first proposal; after a positive first
  score below its threshold (lines 131 to 154) neither \<open>a2 < p_a[1]\<close> nor \<open>a2 > p_a[1]\<close>
  holds, so the chain reaches \<open>continue\<close> and drops the first proposal although it passed
  its own test.
\<close>

lemma threshold_tie_kept_or_dropped:
  "four_way (- 1) 1 (Fin 1) (Fin 1) = (True, False)
   \<and> four_way (1 / 2) 1 (Fin 1) (Fin 1) = (False, False)
   \<and> independent_rule (1 / 2) 1 (Fin 1) (Fin 1) = (True, False)"
  by (simp add: four_way_def independent_rule_def accept_coordinate_def)

text \<open>
  The chain never accepts a coordinate that the rule rejects: where the two differ, the
  chain has dropped a proposal.
\<close>

lemma four_way_below_rule:
  "fst (four_way a1 a2 p1 p2) \<Longrightarrow> fst (independent_rule a1 a2 p1 p2)"
  "snd (four_way a1 a2 p1 p2) \<Longrightarrow> snd (independent_rule a1 a2 p1 p2)"
  by (auto simp add: four_way_def independent_rule_def accept_coordinate_def split: if_splits)

text \<open>
  Away from these two cases the chain is the rule: for positive thresholds the two agree
  exactly when neither score is zero and it is not the case that both scores are positive
  with one of them below its threshold and the other equal to its threshold.
\<close>

lemma four_way_rule_iff:
  assumes "positive p1" and "positive p2"
  shows "(four_way a1 a2 p1 p2 = independent_rule a1 a2 p1 p2) =
    (a1 \<noteq> 0 \<and> a2 \<noteq> 0 \<and> \<not> (0 < a1 \<and> 0 < a2 \<and> ((lt a1 p1 \<and> p2 = Fin a2) \<or> (p1 = Fin a1 \<and> lt a2 p2))))"
  using assms
  by (cases p1; cases p2) (auto simp add: four_way_def independent_rule_def accept_coordinate_def)

lemma four_way_refines_rule:
  assumes "positive p1" and "positive p2"
    and "a1 \<noteq> 0" and "a2 \<noteq> 0"
    and "\<not> (0 < a1 \<and> 0 < a2 \<and> ((lt a1 p1 \<and> p2 = Fin a2) \<or> (p1 = Fin a1 \<and> lt a2 p2)))"
  shows "four_way a1 a2 p1 p2 = independent_rule a1 a2 p1 p2"
  using assms
  by (cases p1; cases p2) (auto simp add: four_way_def independent_rule_def accept_coordinate_def)

lemma four_way_refines_rule_witness:
  "positive (Fin 1) \<and> positive (Fin 1) \<and> (2 :: real) \<noteq> 0 \<and> (1 / 2 :: real) \<noteq> 0
   \<and> four_way 2 (1 / 2) (Fin 1) (Fin 1) = (False, True)
   \<and> independent_rule 2 (1 / 2) (Fin 1) (Fin 1) = (False, True)"
proof -
  have "four_way 2 (1 / 2) (Fin 1) (Fin 1) = independent_rule 2 (1 / 2) (Fin 1) (Fin 1)"
    by (rule four_way_refines_rule) simp_all
  then show ?thesis
    by (simp add: independent_rule_def accept_coordinate_def)
qed

text \<open>
  Claim C6.  In an iteration in which either acceptance score is exactly zero, the
  four-way conditional takes no accepting branch, whatever the other score and the
  thresholds are: both coordinates are rejected and the iteration leaves the state
  (configuration, cached energy, \<open>samples\<close> and counter) as it was.
\<close>

theorem zero_score_rejects_both:
  assumes "score1 f images sigma kT d s = 0 \<or> score2 f images sigma kT d s = 0"
  shows "four_way (score1 f images sigma kT d s) (score2 f images sigma kT d s)
           (neg_log (fst (rand d))) (neg_log (snd (rand d))) = (False, False)
         \<and> mcmc_step f images sigma kT d s = Inr s"
proof -
  from assms have "four_way (score1 f images sigma kT d s) (score2 f images sigma kT d s)
           (neg_log (fst (rand d))) (neg_log (snd (rand d))) = (False, False)"
    by (auto simp add: four_way_def)
  then show ?thesis by (simp add: mcmc_step_decision)
qed

theorem zero_score_rejects_both_witness:
  "score1 energy_em [0] 1 1 \<lparr>dx = (0, 1), rand = (1 / 2, 1 / 2)\<rparr>
      (init_state energy_em 2 [0] (0, 0) 1 1) = 0
   \<and> mcmc_step energy_em [0] 1 1 \<lparr>dx = (0, 1), rand = (1 / 2, 1 / 2)\<rparr>
      (init_state energy_em 2 [0] (0, 0) 1 1) = Inr (init_state energy_em 2 [0] (0, 0) 1 1)"
proof -
  have h: "score1 energy_em [0] 1 1 \<lparr>dx = (0, 1), rand = (1 / 2, 1 / 2)\<rparr>
      (init_state energy_em 2 [0] (0, 0) 1 1) = 0"
    by (simp add: score1_def init_state_def)
  show ?thesis using h zero_score_rejects_both [OF disjI1 [OF h]] by simp
qed

text \<open>
  Claim C7.  An iteration in which neither coordinate is accepted appends nothing and
  leaves the configuration, the cached energy and the counter unchanged: the rest of
  the loop runs from the very same state.
\<close>

theorem double_rejection_frame:
  assumes "four_way (score1 f images sigma kT (rng i) s) (score2 f images sigma kT (rng i) s)
             (neg_log (fst (rand (rng i)))) (neg_log (snd (rand (rng i)))) = (False, False)"
  shows "mcmc_step f images sigma kT (rng i) s = Inr s
         \<and> mcmc_loop f images sigma kT rng (i # rest) s = mcmc_loop f images sigma kT rng rest s"
  using assms by (simp add: mcmc_step_decision)

theorem double_rejection_frame_witness:
  "four_way
     (score1 energy_em [1] 1 9 \<lparr>dx = (- 2, - 2), rand = (1 / 2, 1 / 2)\<rparr>
        (init_state energy_em 3 [1] (2, 2) 1 9))
     (score2 energy_em [1] 1 9 \<lparr>dx = (- 2, - 2), rand = (1 / 2, 1 / 2)\<rparr>
        (init_state energy_em 3 [1] (2, 2) 1 9))
     (neg_log (1 / 2)) (neg_log (1 / 2)) = (False, False)
   \<and> mcmc_step energy_em [1] 1 9 \<lparr>dx = (- 2, - 2), rand = (1 / 2, 1 / 2)\<rparr>
        (init_state energy_em 3 [1] (2, 2) 1 9) = Inr (init_state energy_em 3 [1] (2, 2) 1 9)"
proof -
  let ?d = "\<lparr>dx = (- 2, - 2), rand = (1 / 2 :: real, 1 / 2 :: real)\<rparr>"
  let ?s = "init_state energy_em 3 [1] (2, 2) 1 9"
  have a1: "score1 energy_em [1] 1 9 ?d ?s = 2"
    by (simp add: score1_def init_state_def prior_def energy_em_def power2_eq_square)
  have a2: "score2 energy_em [1] 1 9 ?d ?s = 2"
    by (simp add: score2_def init_state_def prior_def energy_em_def power2_eq_square)
  have l: "ln (2 :: real) < 1" by (rule ln_2_less_1)
  have p: "neg_log (1 / 2) = Fin (ln 2)"
    by (simp add: neg_log_def ln_div)
  have q: "\<not> 2 < ln (2 :: real)" using l by linarith
  have h: "four_way (score1 energy_em [1] 1 9 (constant_draws ?d 1) ?s)
             (score2 energy_em [1] 1 9 (constant_draws ?d 1) ?s)
             (neg_log (fst (rand (constant_draws ?d 1)))) (neg_log (snd (rand (constant_draws ?d 1))))
           = (False, False)"
    using q by (simp add: constant_draws_def a1 a2 four_way_def p)
  show ?thesis
    using h double_rejection_frame
      [where f = energy_em and images = "[1]" and sigma = 1 and kT = 9
         and rng = "constant_draws ?d" and i = 1 and s = ?s and rest = "[]"]
    by (simp add: constant_draws_def)
qed

subsection \<open>The cached energy\<close>

text \<open>
  Claim C8.  With \<open>p_em\<close> bound to the energy function \<open>f\<close> (the Energy Model the
  sampler consumes), the loop reaches the end of each of its iterations \<open>1, ..., k\<close>
  (\<open>k < steps\<close>) without an exception, and in the state \<open>s\<close> reached there, that is at the
  start of the next iteration, the cached \<open>old_e\<close> is the energy of the current
  configuration.  An iteration run from \<open>s\<close> leaves the state alone when both coordinates
  are rejected, and otherwise advances the counter and caches the energy of the new
  configuration.
\<close>

theorem old_e_cache:
  assumes "0 < steps" and "k < nat steps"
  shows "\<exists>s. mcmc_loop f images sigma kT rng [1..<Suc k]
                (init_state f (nat steps) images x0 sigma kT) = Inr s
            \<and> st_old_e s = f (st_x s) images sigma kT
            \<and> (\<forall>d s'. mcmc_step f images sigma kT d s = Inr s' \<longrightarrow>
                 (if four_way (score1 f images sigma kT d s) (score2 f images sigma kT d s)
                       (neg_log (fst (rand d))) (neg_log (snd (rand d))) = (False, False)
                  then s' = s
                  else st_c s' = Suc (st_c s) \<and> st_old_e s' = f (st_x s') images sigma kT))"
proof -
  let ?s0 = "init_state f (nat steps) images x0 sigma kT"
  have "st_c ?s0 + length [1..<Suc k] \<le> length (st_samples ?s0)"
    using assms by (simp add: init_state_def)
  from mcmc_loop_result [OF this, of f images sigma kT rng] obtain s where
    r: "mcmc_loop f images sigma kT rng [1..<Suc k] ?s0 = Inr s" by blast
  have "st_old_e ?s0 = f (st_x ?s0) images sigma kT" by (simp add: init_state_def)
  with r have inv: "st_old_e s = f (st_x s) images sigma kT" by (rule mcmc_loop_old_e)
  have "mcmc_step f images sigma kT d s = Inr s' \<longrightarrow>
         (if four_way (score1 f images sigma kT d s) (score2 f images sigma kT d s)
               (neg_log (fst (rand d))) (neg_log (snd (rand d))) = (False, False)
          then s' = s
          else st_c s' = Suc (st_c s) \<and> st_old_e s' = f (st_x s') images sigma kT)" for d s'
    by (auto simp add: mcmc_step_decision Let_def accept_def prod_eq_iff split: if_splits)
  with r inv show ?thesis by blast
qed

theorem old_e_cache_witness:
  "0 < (3 :: int) \<and> 1 < nat 3 \<and>
   (\<exists>s. mcmc_loop energy_em [0] 1 1
           (constant_draws \<lparr>dx = (1 / 10, - 1 / 10), rand = (1 / 2, 1 / 2)\<rparr>) [1..<Suc 1]
           (init_state energy_em (nat 3) [0] (0, 0) 1 1) = Inr s
      \<and> st_old_e s = energy_em (st_x s) [0] 1 1)"
proof -
  have h: "0 < (3 :: int)" "1 < nat 3" by simp_all
  show ?thesis
    using h old_e_cache [OF h, of energy_em "[0]" 1 1
      "constant_draws \<lparr>dx = (1 / 10, - 1 / 10), rand = (1 / 2, 1 / 2)\<rparr>" "(0, 0)"]
    by blast
qed

subsection \<open>The result of a run\<close>

text \<open>
  Claim C2.  The claim says that a call with valid arguments returns without raising.
  \<open>do_mcmc\<close> calls \<open>p_em\<close>, a name the module never binds (the energy function is
  defined as \<open>energy_em\<close>), so the call on line 65 raises NameError: here for two
  requested steps, the dataset \<open>[0]\<close>, the start \<open>(0, 0)\<close> and \<open>sigma = kT = 1\<close>.
\<close>

theorem do_mcmc_name_error:
  "do_mcmc module_p_em 2 [0] (0, 0) 1 1
     (constant_draws \<lparr>dx = (1 / 10, - 1 / 10), rand = (1 / 2, 1 / 2)\<rparr>) = Inl NameError"
  by (simp add: do_mcmc_def module_p_em_def)

text \<open>
  A run of one requested step with \<open>p_em\<close> bound to \<open>energy_em\<close>: the loop body never
  runs, so no configuration is ever accepted, and yet the call returns one entry, the
  initial configuration.
\<close>

theorem returned_entry_never_accepted:
  "do_mcmc (Some energy_em) 1 [0] (0, 0) 1 1
     (constant_draws \<lparr>dx = (1 / 10, - 1 / 10), rand = (1 / 2, 1 / 2)\<rparr>) = Inr [(0, 0)]
   \<and> accepted energy_em [0] 1 1
       (constant_draws \<lparr>dx = (1 / 10, - 1 / 10), rand = (1 / 2, 1 / 2)\<rparr>) [1..<nat 1] (0, 0)
       (energy_em (0, 0) [0] 1 1) = []"
  by (simp add: do_mcmc_def init_state_def)

text \<open>
  Claim C3, as amended.  With \<open>p_em\<close> bound and at least one requested step, the
  returned sequence is the initial configuration \<open>x0\<close> followed by exactly the
  configurations accepted during the iterations (those in which at least one
  coordinate's proposal passed its test), in acceptance order.
\<close>

theorem do_mcmc_initial_then_accepted:
  assumes "0 < steps"
  shows "do_mcmc (Some f) steps images x0 sigma kT rng =
     Inr (x0 # accepted f images sigma kT rng [1..<nat steps] x0 (f x0 images sigma kT))"
  using assms by (rule do_mcmc_bound)

theorem do_mcmc_initial_then_accepted_witness:
  "0 < (3 :: int) \<and>
   do_mcmc (Some energy_em) 3 [0] (0, 0) 1 1
     (constant_draws \<lparr>dx = (1 / 10, - 1 / 10), rand = (1 / 2, 1 / 2)\<rparr>) =
   Inr ((0, 0) # accepted energy_em [0] 1 1
     (constant_draws \<lparr>dx = (1 / 10, - 1 / 10), rand = (1 / 2, 1 / 2)\<rparr>) [1..<nat 3] (0, 0)
     (energy_em (0, 0) [0] 1 1))"
proof -
  have h: "0 < (3 :: int)" by simp
  show ?thesis using h do_mcmc_initial_then_accepted [OF h] by simp
qed

text \<open>
  Claim C5.  For every requested step count \<open>steps \<ge> 1\<close> and every sequence of random
  draws the call (with \<open>p_em\<close> bound) returns a sequence whose length lies between \<open>0\<close>
  and \<open>steps\<close>; for \<open>steps = 1\<close> the length is \<open>0\<close> or \<open>1\<close>.
\<close>

theorem do_mcmc_length:
  assumes "0 < steps"
  shows "\<exists>out. do_mcmc (Some f) steps images x0 sigma kT rng = Inr out
           \<and> 0 \<le> int (length out) \<and> int (length out) \<le> steps
           \<and> (steps = 1 \<longrightarrow> length out = 0 \<or> length out = 1)"
proof -
  let ?acc = "accepted f images sigma kT rng [1..<nat steps] x0 (f x0 images sigma kT)"
  have "length ?acc \<le> length [1..<nat steps]" by (rule length_accepted)
  with assms have "int (length (x0 # ?acc)) \<le> steps" by simp
  moreover have "steps = 1 \<longrightarrow> length (x0 # ?acc) = 1" by simp
  ultimately show ?thesis using do_mcmc_bound [OF assms, of f images x0 sigma kT rng]
    by simp
qed

theorem do_mcmc_length_witness:
  "0 < (1 :: int) \<and>
   (\<exists>out. do_mcmc (Some energy_em) 1 [0] (0, 0) 1 1
        (constant_draws \<lparr>dx = (1 / 10, - 1 / 10), rand = (1 / 2, 1 / 2)\<rparr>) = Inr out
      \<and> int (length out) \<le> 1)"
proof -
  have h: "0 < (1 :: int)" by simp
  show ?thesis
    using h do_mcmc_length [OF h, of energy_em "[0]" "(0, 0)" 1 1
      "constant_draws \<lparr>dx = (1 / 10, - 1 / 10), rand = (1 / 2, 1 / 2)\<rparr>"]
    by auto
qed

text \<open>
  Claim C10.  For every requested step count \<open>steps \<ge> 1\<close> the returned sequence is
  non-empty and starts with the initial configuration \<open>x0\<close>, so its length is at
  least \<open>1\<close>.
\<close>

theorem do_mcmc_starts_with_x0:
  assumes "0 < steps"
  shows "\<exists>out. do_mcmc (Some f) steps images x0 sigma kT rng = Inr out
           \<and> out \<noteq> [] \<and> hd out = x0 \<and> 1 \<le> length out"
  using do_mcmc_bound [OF assms, of f images x0 sigma kT rng] by simp

theorem do_mcmc_starts_with_x0_witness:
  "0 < (2 :: int) \<and>
   (\<exists>out. do_mcmc (Some energy_em) 2 [0] (- 3, 1) 1 1
        (constant_draws \<lparr>dx = (1 / 10, - 1 / 10), rand = (1 / 2, 1 / 2)\<rparr>) = Inr out
      \<and> out \<noteq> [] \<and> hd out = (- 3, 1))"
proof -
  have h: "0 < (2 :: int)" by simp
  show ?thesis
    using h do_mcmc_starts_with_x0 [OF h, of energy_em "[0]" "(- 3, 1)" 1 1
      "constant_draws \<lparr>dx = (1 / 10, - 1 / 10), rand = (1 / 2, 1 / 2)\<rparr>"]
    by auto
qed

end
